theory Spec2Isabelle
  imports Main
begin

section \<open>Values exchanged with the web framework and the model API\<close>

text \<open>
  Python \<open>str\<close> values are modelled as \<^typ>\<open>string\<close> holding the UTF-8 bytes of the
  text. The development only concatenates strings, compares them and tests them for
  emptiness, and UTF-8 encoding commutes with all three. The literals of \<open>main.py\<close>
  that are written in Chinese appear below as their UTF-8 bytes.

  JSON values, as \<open>request.json\<close> delivers them and as \<open>jsonify\<close> and
  \<open>json.dumps\<close> receive them. A Python \<open>dict\<close> is an association list read with
  \<^const>\<open>map_of\<close>; \<open>None\<close> is \<open>JNull\<close>. Numbers with a fractional part are left out.
\<close>

datatype json =
    JNull
  | JBool bool
  | JInt int
  | JStr string
  | JArr "json list"
  | JObj "(string \<times> json) list"

type_synonym dict = "(string \<times> json) list"

text \<open>Python truthiness, as used by \<open>if not image_data\<close> and \<open>if not image_url\<close>.\<close>

fun truthy :: "json \<Rightarrow> bool" where
  "truthy JNull = False"
| "truthy (JBool b) = b"
| "truthy (JInt n) = (n \<noteq> 0)"
| "truthy (JStr s) = (s \<noteq> [])"
| "truthy (JArr xs) = (xs \<noteq> [])"
| "truthy (JObj d) = (d \<noteq> [])"

text \<open>\<open>d.get(k)\<close> and \<open>d.get(k, default)\<close>.\<close>

definition dict_get :: "dict \<Rightarrow> string \<Rightarrow> json" where
  "dict_get d k = (case map_of d k of None \<Rightarrow> JNull | Some v \<Rightarrow> v)"

definition dict_get_default :: "dict \<Rightarrow> string \<Rightarrow> json \<Rightarrow> json" where
  "dict_get_default d k dflt = (case map_of d k of None \<Rightarrow> dflt | Some v \<Rightarrow> v)"

text \<open>
  An attribute of a duck-typed object: it may be missing (\<open>hasattr\<close> is false), present
  and \<open>None\<close>, or present with a value.
\<close>

datatype 'a attr = Missing | PyNone | Val 'a

text \<open>
  The streamed chunks of the completion. \<open>delta.content\<close> is read without a
  \<open>hasattr\<close> test (it is a declared optional field of the client library's delta
  type), \<open>delta.reasoning_content\<close> is guarded by \<open>hasattr\<close>.
\<close>

record choice_delta =
  delta_reasoning_content :: "string attr"
  delta_content :: "string option"

record choice =
  delta :: choice_delta

record completion_usage =
  prompt_tokens :: "int attr"
  completion_tokens :: "int attr"
  total_tokens :: "int attr"

record chunk =
  choices :: "choice list"
  usage :: "completion_usage attr"

section \<open>The streaming relay: \<open>generate\<close> inside \<open>extract_text\<close>\<close>

text \<open>
  The three \<open>nonlocal\<close> variables of \<open>generate\<close> (lines 114 to 119).
\<close>

record relay_state =
  reasoning_content :: string
  answer_content :: string
  is_answering :: bool

text \<open>
  An event is the dictionary handed to \<open>json.dumps\<close>; the generator yields it framed
  as \<open>data: <json>\<close> followed by a blank line. The model keeps the dictionary, in the
  key order of the source.
\<close>

type_synonym event = dict

definition status :: "event \<Rightarrow> json option" where
  "status e = map_of e ''status''"

text \<open>\<open>getattr(chunk.usage, name, 0)\<close> (lines 127 to 129).\<close>

fun getattr_usage :: "completion_usage attr \<Rightarrow> (completion_usage \<Rightarrow> int attr) \<Rightarrow> json" where
  "getattr_usage (Val u) field =
     (case field u of Missing \<Rightarrow> JInt 0 | PyNone \<Rightarrow> JNull | Val n \<Rightarrow> JInt n)"
| "getattr_usage _ field = JInt 0"

definition usage_data :: "completion_usage attr \<Rightarrow> event" where
  "usage_data u =
     [(''usage'', JObj [(''prompt_tokens'', getattr_usage u prompt_tokens),
                        (''completion_tokens'', getattr_usage u completion_tokens),
                        (''total_tokens'', getattr_usage u total_tokens)]),
      (''status'', JStr ''completed'')]"

definition thinking_data :: "string \<Rightarrow> event" where
  "thinking_data rc = [(''reasoning_content'', JStr rc), (''status'', JStr ''thinking'')]"

definition answering_data :: "string \<Rightarrow> event" where
  "answering_data ac = [(''answer_content'', JStr ac), (''status'', JStr ''answering'')]"

definition completed_data :: "relay_state \<Rightarrow> event" where
  "completed_data st =
     [(''status'', JStr ''completed''),
      (''reasoning_content'', JStr (reasoning_content st)),
      (''answer_content'', JStr (answer_content st))]"

text \<open>One iteration of the \<open>for chunk in completion\<close> loop (lines 122 to 156).\<close>

definition relay_step :: "relay_state \<Rightarrow> chunk \<Rightarrow> relay_state \<times> event list" where
  "relay_step st c =
     (case choices c of
        [] \<Rightarrow>
          (case usage c of
             Missing \<Rightarrow> (st, [])
           | _ \<Rightarrow> (st, [usage_data (usage c)]))
      | ch # _ \<Rightarrow>
          (case delta_reasoning_content (delta ch) of
             Val r \<Rightarrow>
               (let st' = st\<lparr>reasoning_content := reasoning_content st @ r\<rparr>
                in (st', [thinking_data (reasoning_content st')]))
           | _ \<Rightarrow>
               (case delta_content (delta ch) of
                  None \<Rightarrow> (st, [])
                | Some a \<Rightarrow>
                    if a = [] then (st, [])
                    else
                      (let st' = st\<lparr>is_answering := True,
                                     answer_content := answer_content st @ a\<rparr>
                       in (st', [answering_data (answer_content st')])))))"

text \<open>The loop over a finite stream of chunks, collecting what is yielded.\<close>

fun relay_loop :: "relay_state \<Rightarrow> chunk list \<Rightarrow> relay_state \<times> event list" where
  "relay_loop st [] = (st, [])"
| "relay_loop st (c # cs) =
     (case relay_step st c of
        (st', es) \<Rightarrow> (case relay_loop st' cs of (st'', es') \<Rightarrow> (st'', es @ es')))"

text \<open>The whole generator: the loop, then the final event (lines 159 to 164).\<close>

definition generate :: "relay_state \<Rightarrow> chunk list \<Rightarrow> event list" where
  "generate st completion =
     (case relay_loop st completion of (st', es) \<Rightarrow> es @ [completed_data st'])"

text \<open>The values the handler gives the three variables before the loop (lines 114 to 116).\<close>

definition relay_init :: relay_state where
  "relay_init = \<lparr>reasoning_content = [], answer_content = [], is_answering = False\<rparr>"

section \<open>The HTTP handlers\<close>

text \<open>
  A handler answers either with \<open>jsonify(body), code\<close> (code 200 when the source gives
  none) or, for \<open>extract_text\<close>, with the streamed events of the generator.
\<close>

datatype response =
    JsonResponse json nat
  | StreamResponse "event list"

text \<open>
  The keyword arguments of \<open>client.chat.completions.create\<close> (lines 106 to 111). The
  gateway client is a parameter of the model: it answers a request with the finite
  stream of chunks, or raises, which is \<open>Inl\<close> of the exception's text.
\<close>

record gateway_request =
  model :: string
  messages :: json
  stream :: bool
  extra_body :: json

type_synonym gateway_client = "gateway_request \<Rightarrow> string + chunk list"

definition MODEL :: string where
  "MODEL = ''qwen3-vl-plus''"

text \<open>
  Line 74: the default question, the UTF-8 bytes of an eleven-character Chinese
  sentence asking to extract the text in the picture.
\<close>

definition default_question :: string where
  "default_question =
      [CHR 0xE8, CHR 0xAF, CHR 0xB7, CHR 0xE6, CHR 0x8F, CHR 0x90, CHR 0xE5, CHR 0x8F,
       CHR 0x96, CHR 0xE5, CHR 0x9B, CHR 0xBE, CHR 0xE7, CHR 0x89, CHR 0x87, CHR 0xE4,
       CHR 0xB8, CHR 0xAD, CHR 0xE7, CHR 0x9A, CHR 0x84, CHR 0xE6, CHR 0x96, CHR 0x87,
       CHR 0xE5, CHR 0xAD, CHR 0x97, CHR 0xE5, CHR 0x86, CHR 0x85, CHR 0xE5, CHR 0xAE,
       CHR 0xB9]"

text \<open>Line 78: the message of the 400 answer, Chinese for "no image data provided".\<close>

definition no_image_message :: string where
  "no_image_message =
      [CHR 0xE6, CHR 0x9C, CHR 0xAA, CHR 0xE6, CHR 0x8F, CHR 0x90, CHR 0xE4, CHR 0xBE,
       CHR 0x9B, CHR 0xE5, CHR 0x9B, CHR 0xBE, CHR 0xE7, CHR 0x89, CHR 0x87, CHR 0xE6,
       CHR 0x95, CHR 0xB0, CHR 0xE6, CHR 0x8D, CHR 0xAE]"

text \<open>Line 210: Chinese for "no image URL provided".\<close>

definition no_url_message :: string where
  "no_url_message =
      [CHR 0xE6, CHR 0x9C, CHR 0xAA, CHR 0xE6, CHR 0x8F, CHR 0x90, CHR 0xE4, CHR 0xBE,
       CHR 0x9B, CHR 0xE5, CHR 0x9B, CHR 0xBE, CHR 0xE7, CHR 0x89, CHR 0x87, CHR 0x55,
       CHR 0x52, CHR 0x4C]"

text \<open>Line 215: Chinese for "URL processed successfully".\<close>

definition url_success_message :: string where
  "url_success_message =
      [CHR 0x55, CHR 0x52, CHR 0x4C, CHR 0xE5, CHR 0xA4, CHR 0x84, CHR 0xE7, CHR 0x90,
       CHR 0x86, CHR 0xE6, CHR 0x88, CHR 0x90, CHR 0xE5, CHR 0x8A, CHR 0x9F]"

text \<open>Line 220: the prefix of the 500 message, Chinese for "URL processing failed: ".\<close>

definition url_failure_prefix :: string where
  "url_failure_prefix =
      [CHR 0x55, CHR 0x52, CHR 0x4C, CHR 0xE5, CHR 0xA4, CHR 0x84, CHR 0xE7, CHR 0x90,
       CHR 0x86, CHR 0xE5, CHR 0xA4, CHR 0xB1, CHR 0xE8, CHR 0xB4, CHR 0xA5, CHR 0x3A,
       CHR 0x20]"

text \<open>
  \<open>data.get\<close> on a value that is not a dictionary raises \<open>AttributeError\<close>; both
  handlers catch it and answer 500 with its text.
\<close>

fun type_name :: "json \<Rightarrow> string" where
  "type_name JNull = ''NoneType''"
| "type_name (JBool b) = ''bool''"
| "type_name (JInt n) = ''int''"
| "type_name (JStr s) = ''str''"
| "type_name (JArr xs) = ''list''"
| "type_name (JObj d) = ''dict''"

definition no_attribute_get :: "json \<Rightarrow> string" where
  "no_attribute_get v =
     [CHR 0x27] @ type_name v @ [CHR 0x27] @ '' object has no attribute ''
       @ [CHR 0x27] @ ''get'' @ [CHR 0x27]"

text \<open>The \<open>messages\<close> list (lines 84 to 97) and the \<open>extra_body\<close> dictionary (lines 100 to 103).\<close>

definition messages_of :: "json \<Rightarrow> json \<Rightarrow> json" where
  "messages_of image_data question =
     JArr [JObj [(''role'', JStr ''user''),
                 (''content'',
                    JArr [JObj [(''type'', JStr ''image_url''),
                                (''image_url'', JObj [(''url'', image_data)])],
                          JObj [(''type'', JStr ''text''), (''text'', question)]])]]"

definition extra_body_of :: "json \<Rightarrow> json" where
  "extra_body_of enable_thinking =
     JObj [(''enable_thinking'', enable_thinking), (''thinking_budget'', JInt 81920)]"

text \<open>The \<open>except\<close> branch of \<open>extract_text\<close> (lines 168 to 174).\<close>

definition error_response :: "string \<Rightarrow> response" where
  "error_response e = JsonResponse (JObj [(''error'', JStr e), (''status'', JStr ''error'')]) 500"

text \<open>
  \<open>extract_text\<close> (lines 69 to 174). The first argument is the gateway client, the
  second is what \<open>request.json\<close> gives: the parsed body, or \<open>Inl\<close> of the text of
  the exception it raises. The result pairs the response with the requests made to
  the gateway client, in order.
\<close>

definition extract_text ::
  "gateway_client \<Rightarrow> string + json \<Rightarrow> response \<times> gateway_request list" where
  "extract_text client request_json =
     (case request_json of
        Inl e \<Rightarrow> (error_response e, [])
      | Inr data \<Rightarrow>
          (case data of
             JObj d \<Rightarrow>
               (let image_data = dict_get d ''image'';
                    question = dict_get_default d ''question'' (JStr default_question);
                    enable_thinking = dict_get_default d ''enable_thinking'' (JBool False)
                in if \<not> truthy image_data
                   then (JsonResponse (JObj [(''error'', JStr no_image_message)]) 400, [])
                   else
                     (let req = \<lparr>model = MODEL,
                                 messages = messages_of image_data question,
                                 stream = True,
                                 extra_body = extra_body_of enable_thinking\<rparr>
                      in case client req of
                           Inl e \<Rightarrow> (error_response e, [req])
                         | Inr completion \<Rightarrow>
                             (StreamResponse (generate relay_init completion), [req])))
           | _ \<Rightarrow> (error_response (no_attribute_get data), [])))"

text \<open>\<open>process_url\<close> (lines 203 to 220).\<close>

definition process_url :: "string + json \<Rightarrow> response" where
  "process_url request_json =
     (case request_json of
        Inl e \<Rightarrow> JsonResponse (JObj [(''error'', JStr (url_failure_prefix @ e))]) 500
      | Inr data \<Rightarrow>
          (case data of
             JObj d \<Rightarrow>
               (let image_url = dict_get d ''url''
                in if \<not> truthy image_url
                   then JsonResponse (JObj [(''error'', JStr no_url_message)]) 400
                   else JsonResponse
                          (JObj [(''success'', JBool True),
                                 (''image_data'', image_url),
                                 (''message'', JStr url_success_message)]) 200)
           | _ \<Rightarrow>
               JsonResponse
                 (JObj [(''error'', JStr (url_failure_prefix @ no_attribute_get data))]) 500))"

section \<open>The image normaliser: \<open>process_image_file\<close>\<close>




text \<open>
  Modelled from the spec: the size computed by \<open>Image.thumbnail\<close> of the imaging
  library, which is not in the repository. Section 4.1: "Downscale so neither
  dimension exceeds 1024 px, preserving aspect ratio; images already within bounds
  are left at original size (no upscaling)"; section 8: "aspect ratio preserved
  within rounding". A picture within the bounds keeps its size. Otherwise the side
  that exceeds its bound by the larger factor is set to the bound and the other
  side is scaled by the same factor, rounded to the nearest whole pixel
  (\<open>round_div\<close>) and never below one pixel.
\<close>

definition round_div :: "nat \<Rightarrow> nat \<Rightarrow> nat" where
  "round_div a b = (2 * a + b) div (2 * b)"

definition thumbnail_size :: "nat \<times> nat \<Rightarrow> nat \<times> nat \<Rightarrow> nat \<times> nat" where
  "thumbnail_size max_size sz =
     (case max_size of (x, y) \<Rightarrow>
        (case sz of (w, h) \<Rightarrow>
           if w \<le> x \<and> h \<le> y then (w, h)
           else if h * x \<le> w * y then (x, max 1 (round_div (h * x) w))
           else (max 1 (round_div (w * y) h), y)))"



text \<open>The handler \<open>upload_image\<close> is not modelled; no property below is about it.\<close>

section \<open>Vocabulary of the properties\<close>

text \<open>
  What a chunk carries, read off the fields the relay reads: the reasoning delta of
  the first choice when it is present and not \<open>None\<close>, the answer delta of the first
  choice when it is a non-empty string.
\<close>

definition reasoning_delta :: "chunk \<Rightarrow> string option" where
  "reasoning_delta c =
     (case choices c of
        [] \<Rightarrow> None
      | ch # _ \<Rightarrow> (case delta_reasoning_content (delta ch) of Val r \<Rightarrow> Some r | _ \<Rightarrow> None))"

definition answer_delta :: "chunk \<Rightarrow> string option" where
  "answer_delta c =
     (case choices c of
        [] \<Rightarrow> None
      | ch # _ \<Rightarrow>
          (case delta_content (delta ch) of
             None \<Rightarrow> None
           | Some a \<Rightarrow> if a = [] then None else Some a))"

text \<open>The answer delta of a chunk that carries no reasoning delta.\<close>

definition relayed_answer_delta :: "chunk \<Rightarrow> string option" where
  "relayed_answer_delta c =
     (case reasoning_delta c of Some r \<Rightarrow> None | None \<Rightarrow> answer_delta c)"

definition carries_reasoning :: "chunk \<Rightarrow> bool" where
  "carries_reasoning c = (reasoning_delta c \<noteq> None)"

definition relayed_as_answer :: "chunk \<Rightarrow> bool" where
  "relayed_as_answer c = (relayed_answer_delta c \<noteq> None)"

definition carries_answer :: "chunk \<Rightarrow> bool" where
  "carries_answer c = (answer_delta c \<noteq> None)"

text \<open>
  Section 3 of the spec describes a chunk as carrying at most one of a reasoning
  delta, an answer delta and a usage summary. A usage summary comes without
  choices, hence without deltas, so a chunk is of that kind when it does not carry
  both deltas.
\<close>

definition carries_at_most_one :: "chunk \<Rightarrow> bool" where
  "carries_at_most_one c = (reasoning_delta c = None \<or> answer_delta c = None)"

text \<open>A chunk without choices that has a \<open>usage\<close> attribute.\<close>

definition is_usage_chunk :: "chunk \<Rightarrow> bool" where
  "is_usage_chunk c = (choices c = [] \<and> usage c \<noteq> Missing)"

definition has_status :: "string \<Rightarrow> event \<Rightarrow> bool" where
  "has_status s e = (status e = Some (JStr s))"

text \<open>The final event's shape: status "completed" together with both texts.\<close>

definition is_terminal :: "event \<Rightarrow> bool" where
  "is_terminal e =
     (has_status ''completed'' e \<and> map_of e ''reasoning_content'' \<noteq> None
      \<and> map_of e ''answer_content'' \<noteq> None)"

text \<open>Some event with status "thinking" comes after an event with status "answering".\<close>

fun thinking_after_answering :: "event list \<Rightarrow> bool" where
  "thinking_after_answering [] = False"
| "thinking_after_answering (e # es) =
     ((has_status ''answering'' e \<and> list_ex (has_status ''thinking'') es)
      \<or> thinking_after_answering es)"

text \<open>Some chunk with a reasoning delta arrives after a chunk relayed as an answer.\<close>

fun reasoning_after_answer :: "chunk list \<Rightarrow> bool" where
  "reasoning_after_answer [] = False"
| "reasoning_after_answer (c # cs) =
     ((relayed_as_answer c \<and> list_ex carries_reasoning cs) \<or> reasoning_after_answer cs)"

text \<open>
  Sample inputs for the examples below: a chunk with one choice, a chunk without
  choices whose \<open>usage\<close> is \<open>None\<close>, and a gateway client whose stream is empty.
\<close>

definition delta_chunk :: "string attr \<Rightarrow> string option \<Rightarrow> chunk" where
  "delta_chunk r a =
     \<lparr>choices = [\<lparr>delta = \<lparr>delta_reasoning_content = r, delta_content = a\<rparr>\<rparr>],
      usage = PyNone\<rparr>"

definition no_choices_chunk :: chunk where
  "no_choices_chunk = \<lparr>choices = [], usage = PyNone\<rparr>"

definition silent_client :: gateway_client where
  "silent_client req = Inr []"


section \<open>Facts about one step and about the loop\<close>

lemma relay_step_reasoning:
  "reasoning_delta c = Some r \<Longrightarrow>
   relay_step st c =
     (st\<lparr>reasoning_content := reasoning_content st @ r\<rparr>,
      [thinking_data (reasoning_content st @ r)])"
  by (auto simp: relay_step_def reasoning_delta_def Let_def split: list.splits attr.splits)

lemma relay_step_answer:
  "relayed_answer_delta c = Some a \<Longrightarrow>
   relay_step st c =
     (st\<lparr>is_answering := True, answer_content := answer_content st @ a\<rparr>,
      [answering_data (answer_content st @ a)])"
  by (auto simp: relay_step_def relayed_answer_delta_def reasoning_delta_def answer_delta_def
        Let_def split: list.splits attr.splits option.splits if_splits)

lemma relay_step_other:
  "reasoning_delta c = None \<Longrightarrow> relayed_answer_delta c = None \<Longrightarrow>
   relay_step st c = (st, if is_usage_chunk c then [usage_data (usage c)] else [])"
  by (auto simp: relay_step_def relayed_answer_delta_def reasoning_delta_def answer_delta_def
        is_usage_chunk_def Let_def split: list.splits attr.splits option.splits if_splits)

lemma relayed_not_reasoning:
  "reasoning_delta c = Some r \<Longrightarrow> relayed_answer_delta c = None"
  by (simp add: relayed_answer_delta_def)

lemma relay_loop_Cons_fst:
  "fst (relay_loop st (c # cs)) = fst (relay_loop (fst (relay_step st c)) cs)"
  by (simp split: prod.splits)

lemma relay_loop_Cons_snd:
  "snd (relay_loop st (c # cs)) =
     snd (relay_step st c) @ snd (relay_loop (fst (relay_step st c)) cs)"
  by (simp split: prod.splits)

lemma generate_eq:
  "generate st cs = snd (relay_loop st cs) @ [completed_data (fst (relay_loop st cs))]"
  by (simp add: generate_def split: prod.splits)

lemma relay_loop_state:
  "fst (relay_loop st cs) =
     st\<lparr>reasoning_content := reasoning_content st @ concat (List.map_filter reasoning_delta cs),
        answer_content := answer_content st @ concat (List.map_filter relayed_answer_delta cs),
        is_answering := is_answering st \<or> list_ex relayed_as_answer cs\<rparr>"
proof (induction cs arbitrary: st)
  case Nil
  show ?case by (simp add: map_filter_simps)
next
  case (Cons c cs)
  show ?case
  proof (cases "reasoning_delta c")
    case (Some r)
    then show ?thesis
      by (simp add: relay_loop_Cons_fst Cons.IH relay_step_reasoning relayed_not_reasoning
            relayed_as_answer_def map_filter_simps del: relay_loop.simps)
  next
    case None
    show ?thesis
    proof (cases "relayed_answer_delta c")
      case (Some a)
      with None show ?thesis
        by (simp add: relay_loop_Cons_fst Cons.IH relay_step_answer relayed_as_answer_def
              map_filter_simps del: relay_loop.simps)
    next
      case N2: None
      with None show ?thesis
        by (simp add: relay_loop_Cons_fst Cons.IH relay_step_other relayed_as_answer_def
              map_filter_simps del: relay_loop.simps)
    qed
  qed
qed


lemma has_status_simps:
  "has_status s (thinking_data x) = (s = ''thinking'')"
  "has_status s (answering_data x) = (s = ''answering'')"
  "has_status s (usage_data u) = (s = ''completed'')"
  "has_status s (completed_data st) = (s = ''completed'')"
  by (auto simp: has_status_def status_def thinking_data_def answering_data_def
        usage_data_def completed_data_def)

lemma is_terminal_simps:
  "\<not> is_terminal (thinking_data x)"
  "\<not> is_terminal (answering_data x)"
  "\<not> is_terminal (usage_data u)"
  "is_terminal (completed_data st)"
  by (auto simp: is_terminal_def has_status_def status_def thinking_data_def
        answering_data_def usage_data_def completed_data_def)

lemma usage_chunk_no_delta:
  "is_usage_chunk c \<Longrightarrow> reasoning_delta c = None"
  "is_usage_chunk c \<Longrightarrow> relayed_answer_delta c = None"
  by (simp_all add: is_usage_chunk_def reasoning_delta_def relayed_answer_delta_def
        answer_delta_def)

lemma relay_step_events:
  "snd (relay_step st c) =
     (case reasoning_delta c of
        Some r \<Rightarrow> [thinking_data (reasoning_content st @ r)]
      | None \<Rightarrow>
          (case relayed_answer_delta c of
             Some a \<Rightarrow> [answering_data (answer_content st @ a)]
           | None \<Rightarrow> if is_usage_chunk c then [usage_data (usage c)] else []))"
  by (simp add: relay_step_reasoning relay_step_answer relay_step_other split: option.splits)

lemma relay_step_state:
  "fst (relay_step st c) =
     st\<lparr>reasoning_content :=
          reasoning_content st @ (case reasoning_delta c of None \<Rightarrow> [] | Some r \<Rightarrow> r),
        answer_content :=
          answer_content st @ (case relayed_answer_delta c of None \<Rightarrow> [] | Some a \<Rightarrow> a),
        is_answering := is_answering st \<or> relayed_as_answer c\<rparr>"
  by (cases "reasoning_delta c"; cases "relayed_answer_delta c")
     (simp_all add: relay_step_reasoning relay_step_answer relay_step_other
        relayed_as_answer_def relayed_not_reasoning)

lemma loop_completed_count:
  "length (filter (has_status ''completed'') (snd (relay_loop st cs))) =
     length (filter is_usage_chunk cs)"
proof (induction cs arbitrary: st)
  case Nil
  show ?case by simp
next
  case (Cons c cs)
  show ?case
    by (auto simp: relay_loop_Cons_snd relay_step_events Cons.IH has_status_simps
          simp del: relay_loop.simps split: option.splits dest: usage_chunk_no_delta)
qed

lemma loop_no_terminal:
  "filter is_terminal (snd (relay_loop st cs)) = []"
proof (induction cs arbitrary: st)
  case Nil
  show ?case by simp
next
  case (Cons c cs)
  show ?case
    by (simp add: relay_loop_Cons_snd relay_step_events Cons.IH is_terminal_simps
          del: relay_loop.simps split: option.splits)
qed

lemma loop_has_thinking:
  "list_ex (has_status ''thinking'') (snd (relay_loop st cs)) = list_ex carries_reasoning cs"
proof (induction cs arbitrary: st)
  case Nil
  show ?case by simp
next
  case (Cons c cs)
  show ?case
    by (simp add: relay_loop_Cons_snd relay_step_events Cons.IH has_status_simps
          carries_reasoning_def del: relay_loop.simps split: option.splits)
qed

lemma thinking_after_answering_append:
  "thinking_after_answering (xs @ ys) =
     (thinking_after_answering xs \<or> thinking_after_answering ys
      \<or> (list_ex (has_status ''answering'') xs \<and> list_ex (has_status ''thinking'') ys))"
  by (induction xs) auto

lemma loop_thinking_after_answering:
  "thinking_after_answering (snd (relay_loop st cs)) = reasoning_after_answer cs"
proof (induction cs arbitrary: st)
  case Nil
  show ?case by simp
next
  case (Cons c cs)
  show ?case
    by (auto simp: relay_loop_Cons_snd relay_step_events Cons.IH has_status_simps
          thinking_after_answering_append loop_has_thinking relayed_as_answer_def
          relayed_not_reasoning simp del: relay_loop.simps split: option.splits)
qed

lemma relay_loop_append_fst:
  "fst (relay_loop st (xs @ ys)) = fst (relay_loop (fst (relay_loop st xs)) ys)"
  by (induction xs arbitrary: st) (simp_all add: relay_loop_Cons_fst del: relay_loop.simps(2))

lemma relay_loop_append_snd:
  "snd (relay_loop st (xs @ ys)) =
     snd (relay_loop st xs) @ snd (relay_loop (fst (relay_loop st xs)) ys)"
  by (induction xs arbitrary: st)
     (simp_all add: relay_loop_Cons_fst relay_loop_Cons_snd del: relay_loop.simps(2))

text \<open>
  The output split at chunk \<open>i\<close>: the events of the chunks before it, the events of
  its own step, the events of the chunks after it, and the final event.
\<close>

lemma generate_split:
  assumes "i < length cs"
  shows "generate st cs =
           snd (relay_loop st (take i cs))
           @ snd (relay_step (fst (relay_loop st (take i cs))) (cs ! i))
           @ snd (relay_loop (fst (relay_loop st (take (Suc i) cs))) (drop (Suc i) cs))
           @ [completed_data (fst (relay_loop st cs))]"
proof -
  have cs: "cs = take i cs @ [cs ! i] @ drop (Suc i) cs"
    using assms by (simp add: id_take_nth_drop)
  have t: "take (Suc i) cs = take i cs @ [cs ! i]"
    using assms by (simp add: take_Suc_conv_app_nth)
  have "snd (relay_loop st cs) =
          snd (relay_loop st (take i cs))
          @ snd (relay_loop (fst (relay_loop st (take i cs))) ([cs ! i] @ drop (Suc i) cs))"
    by (subst cs) (rule relay_loop_append_snd)
  also have "snd (relay_loop (fst (relay_loop st (take i cs))) ([cs ! i] @ drop (Suc i) cs)) =
          snd (relay_step (fst (relay_loop st (take i cs))) (cs ! i))
          @ snd (relay_loop (fst (relay_loop st (take (Suc i) cs))) (drop (Suc i) cs))"
    by (simp add: t relay_loop_append_fst relay_loop_Cons_fst relay_loop_Cons_snd
          del: relay_loop.simps(2))
  finally show ?thesis by (simp add: generate_eq)
qed

lemma map_filter_append:
  "List.map_filter f (xs @ ys) = List.map_filter f xs @ List.map_filter f ys"
  by (simp add: List.map_filter_def)

text \<open>The final event and the event of each chunk, for every stream of chunks.\<close>

lemma final_event_relayed:
  "last (generate relay_init cs) =
     [(''status'', JStr ''completed''),
      (''reasoning_content'', JStr (concat (List.map_filter reasoning_delta cs))),
      (''answer_content'', JStr (concat (List.map_filter relayed_answer_delta cs)))]"
  by (simp add: generate_eq relay_loop_state completed_data_def relay_init_def)

lemma chunk_event_relayed:
  assumes "i < length cs"
  shows "(carries_reasoning (cs ! i) \<longrightarrow>
            (\<exists>rest. generate relay_init cs =
               snd (relay_loop relay_init (take i cs))
               @ thinking_data (concat (List.map_filter reasoning_delta (take (Suc i) cs)))
               # rest))
         \<and> (relayed_as_answer (cs ! i) \<longrightarrow>
            (\<exists>rest. generate relay_init cs =
               snd (relay_loop relay_init (take i cs))
               @ answering_data (concat (List.map_filter relayed_answer_delta (take (Suc i) cs)))
               # rest))"
proof -
  have t: "take (Suc i) cs = take i cs @ [cs ! i]"
    using assms by (simp add: take_Suc_conv_app_nth)
  show ?thesis
    by (subst (1 2) generate_split[OF assms])
       (auto simp: carries_reasoning_def relayed_as_answer_def relay_step_events t
          map_filter_append map_filter_simps relay_loop_state relay_init_def
          relayed_not_reasoning split: option.splits)
qed

text \<open>
  On a chunk that does not carry both deltas, the answer delta is the one relayed.
\<close>

lemma relayed_answer_delta_eq:
  "carries_at_most_one c \<Longrightarrow> relayed_answer_delta c = answer_delta c"
  by (auto simp: carries_at_most_one_def relayed_answer_delta_def split: option.splits)

lemma map_filter_relayed_eq:
  "list_all carries_at_most_one cs \<Longrightarrow>
   List.map_filter relayed_answer_delta cs = List.map_filter answer_delta cs"
proof (induction cs)
  case Nil
  show ?case by (simp add: map_filter_simps)
next
  case (Cons c cs)
  then have "relayed_answer_delta c = answer_delta c"
    and "List.map_filter relayed_answer_delta cs = List.map_filter answer_delta cs"
    by (simp_all add: relayed_answer_delta_eq)
  then show ?case by (simp add: map_filter_simps split: option.splits)
qed

lemma list_all_take: "list_all P xs \<Longrightarrow> list_all P (take n xs)"
  by (auto simp: list_all_iff dest: in_set_takeD)

section \<open>Facts about the size of a thumbnail\<close>








text \<open>The two pictures of section 8 of the spec, and a tall one.\<close>

lemma thumbnail_size_examples:
  "thumbnail_size (1024, 1024) (2000, 1000) = (1024, 512)"
  "thumbnail_size (1024, 1024) (300, 200) = (300, 200)"
  "thumbnail_size (1024, 1024) (1000, 3000) = (341, 1024)"
  by (simp_all add: thumbnail_size_def round_div_def)

section \<open>The texts of the final event\<close>

text \<open>
  Claim C1. For every finite sequence of chunks, each carrying at most one of a
  reasoning delta and an answer delta as section 3 of the spec has it, the last
  event of the relay is the completed event; its \<open>reasoning_content\<close> is the
  concatenation, in arrival order, of all reasoning deltas that are not \<open>None\<close>,
  and its \<open>answer_content\<close> is the concatenation, in arrival order, of all
  non-empty answer deltas.
\<close>

theorem final_event_texts:
  assumes "list_all carries_at_most_one cs"
  shows "last (generate relay_init cs) =
           [(''status'', JStr ''completed''),
            (''reasoning_content'', JStr (concat (List.map_filter reasoning_delta cs))),
            (''answer_content'', JStr (concat (List.map_filter answer_delta cs)))]"
  using assms by (simp add: final_event_relayed map_filter_relayed_eq)

theorem final_event_texts_witness:
  "list_all carries_at_most_one
     [delta_chunk (Val ''ab'') None, delta_chunk PyNone (Some ''x''), no_choices_chunk,
      delta_chunk (Val ''cd'') (Some []), delta_chunk PyNone (Some ''y'')]
   \<and> last (generate relay_init
           [delta_chunk (Val ''ab'') None, delta_chunk PyNone (Some ''x''), no_choices_chunk,
            delta_chunk (Val ''cd'') (Some []), delta_chunk PyNone (Some ''y'')]) =
       [(''status'', JStr ''completed''),
        (''reasoning_content'', JStr ''abcd''),
        (''answer_content'', JStr ''xy'')]"
proof -
  have h: "list_all carries_at_most_one
     [delta_chunk (Val ''ab'') None, delta_chunk PyNone (Some ''x''), no_choices_chunk,
      delta_chunk (Val ''cd'') (Some []), delta_chunk PyNone (Some ''y'')]"
    by (simp add: carries_at_most_one_def reasoning_delta_def answer_delta_def delta_chunk_def
          no_choices_chunk_def)
  from final_event_texts[OF h] h show ?thesis
    by (simp add: reasoning_delta_def answer_delta_def delta_chunk_def no_choices_chunk_def
          map_filter_simps)
qed

section \<open>The order of thinking and answering events\<close>

text \<open>
  Claim C2, in the form the code satisfies.
  The relay does not order the two kinds of events itself: in
  its output an event with status "thinking" comes after an event with status
  "answering" exactly when, in the input, a chunk with a reasoning delta arrives
  after a chunk relayed as an answer. What never reverts is the \<open>is_answering\<close>
  flag: after the loop it is set exactly when it was set before or some chunk was
  relayed as an answer.
\<close>

theorem thinking_after_answering_iff:
  "thinking_after_answering (generate st cs) = reasoning_after_answer cs
   \<and> is_answering (fst (relay_loop st cs)) = (is_answering st \<or> list_ex relayed_as_answer cs)"
  by (simp add: generate_eq thinking_after_answering_append loop_thinking_after_answering
        has_status_simps relay_loop_state)

theorem thinking_after_answering_iff_witness:
  "\<not> thinking_after_answering
       (generate relay_init [delta_chunk (Val ''r'') None, delta_chunk PyNone (Some ''a'')])
   \<and> is_answering
       (fst (relay_loop relay_init [delta_chunk (Val ''r'') None, delta_chunk PyNone (Some ''a'')]))"
  using thinking_after_answering_iff
          [of relay_init "[delta_chunk (Val ''r'') None, delta_chunk PyNone (Some ''a'')]"]
  by (simp add: relayed_as_answer_def carries_reasoning_def relayed_answer_delta_def
        reasoning_delta_def answer_delta_def delta_chunk_def relay_init_def)

text \<open>
  An answer chunk followed by a reasoning chunk: the events are answering, thinking,
  completed.
\<close>

theorem thinking_after_answering_counterexample:
  "thinking_after_answering
     (generate relay_init [delta_chunk PyNone (Some ''a''), delta_chunk (Val ''r'') None])"
  by (simp add: generate_def relay_step_def relay_init_def delta_chunk_def completed_data_def
        thinking_data_def answering_data_def has_status_def status_def)

section \<open>Events with status "completed"\<close>

text \<open>
  Claim C3, in the form the code satisfies.
  For every sequence of chunks the last event is the final
  one (status "completed" with both texts) and it is the only event of that shape.
  It is not the only event with status "completed": every chunk without choices
  that has a \<open>usage\<close> attribute yields a usage event, which carries that status
  too, so the events with status "completed" number one more than those chunks.
\<close>

theorem completed_events:
  "is_terminal (last (generate relay_init cs))
   \<and> length (filter is_terminal (generate relay_init cs)) = 1
   \<and> length (filter (has_status ''completed'') (generate relay_init cs)) =
       Suc (length (filter is_usage_chunk cs))"
  by (simp add: generate_eq loop_no_terminal loop_completed_count is_terminal_simps
        has_status_simps)

theorem completed_events_witness:
  "is_terminal (last (generate relay_init [delta_chunk PyNone (Some ''a''), no_choices_chunk]))
   \<and> length (filter is_terminal
         (generate relay_init [delta_chunk PyNone (Some ''a''), no_choices_chunk])) = 1
   \<and> length (filter (has_status ''completed'')
         (generate relay_init [delta_chunk PyNone (Some ''a''), no_choices_chunk])) = 2"
  using completed_events [of "[delta_chunk PyNone (Some ''a''), no_choices_chunk]"]
  by (simp add: is_usage_chunk_def delta_chunk_def no_choices_chunk_def)

text \<open>A single chunk without choices: two events have status "completed".\<close>

theorem completed_events_counterexample:
  "length (filter (has_status ''completed'') (generate relay_init [no_choices_chunk])) = 2"
  by (simp add: generate_def relay_step_def relay_init_def no_choices_chunk_def
        completed_data_def usage_data_def has_status_def status_def)

section \<open>Every event carries the accumulated text\<close>

text \<open>
  Claim C4. Take a finite sequence of chunks, each carrying at most one of a
  reasoning delta and an answer delta as section 3 of the spec has it, and the
  chunk at any position \<open>i\<close>. When it carries a reasoning delta that is not
  \<open>None\<close>, the relay emits, right after the events of the chunks before it, the
  event with status "thinking" whose \<open>reasoning_content\<close> is the concatenation of
  all reasoning deltas up to and including this one. When it carries a non-empty
  answer delta, the relay emits at that place the event with status "answering"
  whose \<open>answer_content\<close> is the concatenation of all answer deltas up to and
  including this one.
\<close>

theorem chunk_event_accumulated:
  assumes "i < length cs" and "list_all carries_at_most_one cs"
  shows "(carries_reasoning (cs ! i) \<longrightarrow>
            (\<exists>rest. generate relay_init cs =
               snd (relay_loop relay_init (take i cs))
               @ [(''reasoning_content'',
                     JStr (concat (List.map_filter reasoning_delta (take (Suc i) cs)))),
                  (''status'', JStr ''thinking'')]
               # rest))
         \<and> (carries_answer (cs ! i) \<longrightarrow>
            (\<exists>rest. generate relay_init cs =
               snd (relay_loop relay_init (take i cs))
               @ [(''answer_content'',
                     JStr (concat (List.map_filter answer_delta (take (Suc i) cs)))),
                  (''status'', JStr ''answering'')]
               # rest))"
proof -
  have one: "carries_at_most_one (cs ! i)"
    using assms by (simp add: list_all_length)
  have pre: "List.map_filter relayed_answer_delta (take (Suc i) cs) =
               List.map_filter answer_delta (take (Suc i) cs)"
    using assms(2) by (intro map_filter_relayed_eq list_all_take)
  have ans: "relayed_as_answer (cs ! i) = carries_answer (cs ! i)"
    using one by (simp add: relayed_as_answer_def carries_answer_def relayed_answer_delta_eq)
  from chunk_event_relayed[OF assms(1)] show ?thesis
    unfolding pre ans thinking_data_def answering_data_def .
qed

theorem chunk_event_accumulated_witness:
  "(2::nat) < length [delta_chunk (Val ''ab'') None, delta_chunk PyNone (Some ''x''),
                      delta_chunk (Val ''cd'') (Some []), delta_chunk PyNone (Some ''y'')]
   \<and> list_all carries_at_most_one
        [delta_chunk (Val ''ab'') None, delta_chunk PyNone (Some ''x''),
         delta_chunk (Val ''cd'') (Some []), delta_chunk PyNone (Some ''y'')]
   \<and> (\<exists>rest. generate relay_init
                 [delta_chunk (Val ''ab'') None, delta_chunk PyNone (Some ''x''),
                  delta_chunk (Val ''cd'') (Some []), delta_chunk PyNone (Some ''y'')] =
               [[(''reasoning_content'', JStr ''ab''), (''status'', JStr ''thinking'')],
                [(''answer_content'', JStr ''x''), (''status'', JStr ''answering'')],
                [(''reasoning_content'', JStr ''abcd''), (''status'', JStr ''thinking'')]]
               @ rest)
   \<and> (\<exists>rest. generate relay_init
                 [delta_chunk (Val ''ab'') None, delta_chunk PyNone (Some ''x''),
                  delta_chunk (Val ''cd'') (Some []), delta_chunk PyNone (Some ''y'')] =
               [[(''reasoning_content'', JStr ''ab''), (''status'', JStr ''thinking'')],
                [(''answer_content'', JStr ''x''), (''status'', JStr ''answering'')],
                [(''reasoning_content'', JStr ''abcd''), (''status'', JStr ''thinking'')],
                [(''answer_content'', JStr ''xy''), (''status'', JStr ''answering'')]]
               @ rest)"
proof -
  have h: "list_all carries_at_most_one
        [delta_chunk (Val ''ab'') None, delta_chunk PyNone (Some ''x''),
         delta_chunk (Val ''cd'') (Some []), delta_chunk PyNone (Some ''y'')]"
    by (simp add: carries_at_most_one_def reasoning_delta_def answer_delta_def delta_chunk_def)
  from chunk_event_accumulated[of 2, OF _ h] chunk_event_accumulated[of 3, OF _ h] h
  show ?thesis
    by (simp add: carries_reasoning_def carries_answer_def reasoning_delta_def answer_delta_def
          delta_chunk_def relay_init_def relay_step_def thinking_data_def answering_data_def
          map_filter_simps)
qed

section \<open>The relay on an empty stream\<close>

text \<open>
  Claim C5. When the upstream yields no chunk at all, the relay emits exactly one
  event: the final one, with status "completed" and both texts empty.
\<close>

theorem generate_no_chunks:
  "generate relay_init [] =
     [[(''status'', JStr ''completed''),
       (''reasoning_content'', JStr ''''),
       (''answer_content'', JStr '''')]]"
  by (simp add: generate_def relay_init_def completed_data_def)

section \<open>The normalised picture\<close>



section \<open>A chunk with both deltas\<close>

text \<open>
  Claim C7. When the first choice of a chunk has a reasoning delta that is not
  \<open>None\<close> and also a non-empty answer delta, the step emits the thinking event and
  nothing else; the answer text and the \<open>is_answering\<close> flag stay as they were, and
  only the reasoning text grows.
\<close>

theorem reasoning_takes_precedence:
  assumes "choices c = ch # others"
      and "delta_reasoning_content (delta ch) = Val r"
      and "delta_content (delta ch) = Some a"
      and "a \<noteq> []"
  shows "snd (relay_step st c) = [thinking_data (reasoning_content st @ r)]
         \<and> answer_content (fst (relay_step st c)) = answer_content st
         \<and> is_answering (fst (relay_step st c)) = is_answering st
         \<and> reasoning_content (fst (relay_step st c)) = reasoning_content st @ r"
  using assms by (simp add: relay_step_def Let_def)

theorem reasoning_takes_precedence_witness:
  "snd (relay_step relay_init (delta_chunk (Val ''r'') (Some ''a''))) = [thinking_data ''r'']
   \<and> answer_content (fst (relay_step relay_init (delta_chunk (Val ''r'') (Some ''a'')))) = ''''
   \<and> \<not> is_answering (fst (relay_step relay_init (delta_chunk (Val ''r'') (Some ''a''))))"
  using reasoning_takes_precedence
          [of "delta_chunk (Val ''r'') (Some ''a'')"
              "\<lparr>delta = \<lparr>delta_reasoning_content = Val ''r'', delta_content = Some ''a''\<rparr>\<rparr>"
              "[]" "''r''" "''a''" relay_init]
  by (simp add: delta_chunk_def relay_init_def)

section \<open>The defaults of \<open>extract_text\<close>\<close>

text \<open>
  Claim C8, in the form the code satisfies.
  When the body has a truthy \<open>image\<close>, the handler makes
  exactly one request to the gateway client. If the body has no \<open>question\<close> key, the
  text part of the message is the default question of line 74, a Chinese sentence
  and not the English string "extract text from image"; if it has no
  \<open>enable_thinking\<close> key, \<open>enable_thinking\<close> in \<open>extra_body\<close> is \<open>False\<close>.
\<close>

theorem extract_text_defaults:
  assumes "truthy (dict_get d ''image'')"
  shows "\<exists>req. snd (extract_text client (Inr (JObj d))) = [req]
           \<and> (map_of d ''question'' = None \<longrightarrow>
                messages req = messages_of (dict_get d ''image'') (JStr default_question))
           \<and> (map_of d ''enable_thinking'' = None \<longrightarrow>
                extra_body req = extra_body_of (JBool False))"
  using assms
  by (auto simp: extract_text_def Let_def dict_get_default_def split: sum.splits)

theorem extract_text_defaults_witness:
  "truthy (dict_get [(''image'', JStr ''x'')] ''image'')
   \<and> snd (extract_text silent_client (Inr (JObj [(''image'', JStr ''x'')]))) =
       [\<lparr>model = MODEL,
         messages = messages_of (JStr ''x'') (JStr default_question),
         stream = True,
         extra_body = extra_body_of (JBool False)\<rparr>]"
  using extract_text_defaults [of "[(''image'', JStr ''x'')]" silent_client]
  by (simp add: extract_text_def dict_get_def dict_get_default_def silent_client_def)

text \<open>
  With only \<open>image\<close> in the body, the request made is not the one with the question
  "extract text from image".
\<close>

theorem extract_text_defaults_counterexample:
  "snd (extract_text silent_client (Inr (JObj [(''image'', JStr ''x'')]))) \<noteq>
       [\<lparr>model = MODEL,
         messages = messages_of (JStr ''x'') (JStr ''extract text from image''),
         stream = True,
         extra_body = extra_body_of (JBool False)\<rparr>]"
  by (simp add: extract_text_def dict_get_def dict_get_default_def silent_client_def
        messages_of_def default_question_def)

section \<open>\<open>process_url\<close>\<close>

text \<open>
  Claim C9. When the body holds a non-empty string under \<open>url\<close>, the answer is 200
  and its \<open>image_data\<close> is that very string; when the body has no \<open>url\<close> key, the
  answer is 400 with an \<open>error\<close> message, which is not empty.
\<close>

theorem process_url_passthrough:
  "(map_of d ''url'' = Some (JStr u) \<and> u \<noteq> [] \<longrightarrow>
      process_url (Inr (JObj d)) =
        JsonResponse (JObj [(''success'', JBool True), (''image_data'', JStr u),
                            (''message'', JStr url_success_message)]) 200)
   \<and> (map_of d ''url'' = None \<longrightarrow>
        process_url (Inr (JObj d)) = JsonResponse (JObj [(''error'', JStr no_url_message)]) 400
        \<and> no_url_message \<noteq> [])"
  by (simp add: process_url_def dict_get_def no_url_message_def)

theorem process_url_passthrough_witness:
  "process_url (Inr (JObj [(''url'', JStr ''http://example.com/a.png'')])) =
     JsonResponse (JObj [(''success'', JBool True),
                         (''image_data'', JStr ''http://example.com/a.png''),
                         (''message'', JStr url_success_message)]) 200
   \<and> process_url (Inr (JObj [])) = JsonResponse (JObj [(''error'', JStr no_url_message)]) 400"
  using process_url_passthrough
          [of "[(''url'', JStr ''http://example.com/a.png'')]" "''http://example.com/a.png''"]
        process_url_passthrough [of "[]" "''u''"]
  by simp

section \<open>\<open>extract_text\<close> on an empty body\<close>

text \<open>
  Claim C10. On the body \<open>{}\<close> the handler answers 400 with a non-empty \<open>error\<close>
  message, whatever the gateway client is; it makes no request to the client and
  streams no event.
\<close>

theorem extract_text_empty_body:
  "extract_text client (Inr (JObj [])) =
     (JsonResponse (JObj [(''error'', JStr no_image_message)]) 400, [])
   \<and> no_image_message \<noteq> []"
  by (simp add: extract_text_def dict_get_def no_image_message_def)

theorem extract_text_empty_body_witness:
  "extract_text silent_client (Inr (JObj [])) =
     (JsonResponse (JObj [(''error'', JStr no_image_message)]) 400, [])"
  using extract_text_empty_body [of silent_client] by simp

end
